theory Spec2Isabelle
  imports Complex_Main
begin

section \<open>The Mi Heater integration: setup probe, update coordinator, climate entity\<close>

text \<open>
  The integration is glue between a host platform and a device library. Everything the
  code does is a call to one of the two, so the model records each such call as an
  event, in the order the code makes it, and takes the answer of the collaborator
  (a value, or the exception it raises) from an environment. An exception raised by an
  awaited call leaves the coroutine at that point: the result is \<open>Inl\<close> of the exception
  and the trace stops there.
\<close>

subsection \<open>Exceptions\<close>

text \<open>
  \<open>DeviceException\<close> and \<open>OSError\<close> stand for the class and its subclasses, with the
  text of the exception. \<open>UpdateFailed\<close> and \<open>ConfigEntryNotReady\<close> carry the exception
  they were raised \<open>from\<close>. Any other exception is \<open>OtherException\<close>.
\<close>

datatype exn =
    DeviceException string
  | OSError string
  | UpdateFailed string exn
  | ConfigEntryNotReady exn
  | OtherException string

subsection \<open>Data\<close>

datatype conf_value = VStr string | VInt int

record ConfigEntry =
  entry_id :: string
  data :: "string \<rightharpoonup> conf_value"

text \<open>\<open>hass.data\<close>: per domain, per entry id, the data of the entry.\<close>

type_synonym hass_data = "string \<rightharpoonup> (string \<rightharpoonup> (string \<rightharpoonup> conf_value))"

text \<open>
  The device object of the library, built from what \<open>entry.data.get\<close> returned for the
  host and the token (\<open>None\<close> when the key is absent).
\<close>

record device_obj =
  host :: "conf_value option"
  token :: "conf_value option"

definition Heater :: "conf_value option \<Rightarrow> conf_value option \<Rightarrow> device_obj" where
  "Heater h t = \<lparr>host = h, token = t\<rparr>"

definition MiHeater :: "conf_value option \<Rightarrow> conf_value option \<Rightarrow> device_obj" where
  "MiHeater h t = \<lparr>host = h, token = t\<rparr>"

text \<open>The methods of the device object that the integration calls.\<close>

datatype device_call =
    device_status
  | device_on
  | device_off
  | device_set_target_temperature real

record DeviceStatus =
  is_on :: bool
  temperature :: real
  target_temperature :: real

datatype HVACMode = OFF | HEAT | COOL | HEAT_COOL | AUTO | DRY | FAN_ONLY

text \<open>
  The coordinator: \<open>update_interval\<close> is the \<open>timedelta\<close> handed to the base class, in
  seconds.
\<close>

record MiHeaterDataUpdateCoordinator =
  device :: device_obj
  name :: string
  update_interval :: int

text \<open>The entity; \<open>priv_name\<close> and \<open>priv_unique_id\<close> are \<open>_name\<close> and \<open>_unique_id\<close>.\<close>

record MiHeaterClimate =
  coordinator :: MiHeaterDataUpdateCoordinator
  priv_name :: string
  priv_unique_id :: string

subsection \<open>Events and the environment\<close>

datatype log_arg = ArgHost "conf_value option" | ArgExn exn | ArgMode HVACMode

datatype event =
    executor_job device_obj device_call
  | request_refresh MiHeaterDataUpdateCoordinator
  | config_entry_first_refresh MiHeaterDataUpdateCoordinator
  | add_entities "MiHeaterClimate list" bool
  | logger_warning string "log_arg list"
  | logger_error string "log_arg list"

text \<open>
  What the collaborators answer: the device library to \<open>status\<close> and to a command, the
  coordinator's base class to \<open>async_request_refresh\<close> and to
  \<open>async_config_entry_first_refresh\<close> (\<open>None\<close>: the call returns).
\<close>

record env =
  status_reply :: "device_obj \<Rightarrow> exn + DeviceStatus"
  command_reply :: "device_obj \<Rightarrow> device_call \<Rightarrow> exn option"
  refresh_reply :: "exn option"
  first_refresh_reply :: "exn option"

type_synonym 'a outcome = "(exn + 'a) \<times> event list"

text \<open>Two awaits in sequence: the second runs only if the first did not raise.\<close>

definition and_then :: "unit outcome \<Rightarrow> 'a outcome \<Rightarrow> 'a outcome" where
  "and_then p q =
     (case fst p of
        Inl e \<Rightarrow> (Inl e, snd p)
      | Inr _ \<Rightarrow> (fst q, snd p @ snd q))"

text \<open>\<open>await hass.async_add_executor_job(device.<command>, ...)\<close>\<close>

definition async_add_executor_job :: "env \<Rightarrow> device_obj \<Rightarrow> device_call \<Rightarrow> unit outcome" where
  "async_add_executor_job e dev call =
     ((case command_reply e dev call of None \<Rightarrow> Inr () | Some err \<Rightarrow> Inl err),
      [executor_job dev call])"

text \<open>\<open>await coordinator.async_request_refresh()\<close>\<close>

definition async_request_refresh :: "env \<Rightarrow> MiHeaterDataUpdateCoordinator \<Rightarrow> unit outcome" where
  "async_request_refresh e c =
     ((case refresh_reply e of None \<Rightarrow> Inr () | Some err \<Rightarrow> Inl err),
      [request_refresh c])"

subsection \<open>The coordinator (climate.py)\<close>

text \<open>
  The constructor takes the device and nothing of the config entry; the interval is the
  constant \<open>DEFAULT_UPDATE_INTERVAL\<close> of const.py, a parameter here.
\<close>

definition MiHeaterDataUpdateCoordinator_init ::
    "int \<Rightarrow> device_obj \<Rightarrow> MiHeaterDataUpdateCoordinator" where
  "MiHeaterDataUpdateCoordinator_init DEFAULT_UPDATE_INTERVAL dev =
     \<lparr>device = dev, name = ''Mi Heater Data Update'',
      update_interval = DEFAULT_UPDATE_INTERVAL\<rparr>"

text \<open>
  \<open>_async_update_data\<close>: only \<open>DeviceException\<close> is caught and raised again as
  \<open>UpdateFailed\<close>; any other exception of \<open>device.status\<close> leaves the method as it is.
\<close>

definition async_update_data :: "env \<Rightarrow> MiHeaterDataUpdateCoordinator \<Rightarrow> DeviceStatus outcome" where
  "async_update_data e self =
     ((case status_reply e (device self) of
         Inr d \<Rightarrow> Inr d
       | Inl (DeviceException m) \<Rightarrow>
           Inl (UpdateFailed (''Error fetching data: '' @ m) (DeviceException m))
       | Inl err \<Rightarrow> Inl err),
      [executor_job (device self) device_status])"

subsection \<open>The climate entity (climate.py)\<close>

definition MiHeaterClimate_init ::
    "MiHeaterDataUpdateCoordinator \<Rightarrow> string \<Rightarrow> string \<Rightarrow> MiHeaterClimate" where
  "MiHeaterClimate_init c n eid = \<lparr>coordinator = c, priv_name = n, priv_unique_id = eid\<rparr>"

definition min_temp :: real where
  "min_temp = 16"

definition max_temp :: real where
  "max_temp = 32"

definition ATTR_TEMPERATURE :: string where
  "ATTR_TEMPERATURE = ''temperature''"

text \<open>
  \<open>kwargs.get(key)\<close>: \<open>None\<close> when the key is absent and when it is bound to \<open>None\<close>.
\<close>

definition kwargs_get :: "(string \<rightharpoonup> real option) \<Rightarrow> string \<Rightarrow> real option" where
  "kwargs_get kwargs k = (case kwargs k of None \<Rightarrow> None | Some v \<Rightarrow> v)"

text \<open>A method returns its result, the entity after the call, and the trace.\<close>

definition returning :: "MiHeaterClimate \<Rightarrow> unit outcome \<Rightarrow> (exn + unit) \<times> MiHeaterClimate \<times> event list" where
  "returning self p = (fst p, self, snd p)"

definition async_set_temperature ::
    "env \<Rightarrow> MiHeaterClimate \<Rightarrow> (string \<rightharpoonup> real option) \<Rightarrow> (exn + unit) \<times> MiHeaterClimate \<times> event list" where
  "async_set_temperature e self kwargs =
     (case kwargs_get kwargs ATTR_TEMPERATURE of
        Some t \<Rightarrow>
          returning self
            (and_then
               (async_add_executor_job e (device (coordinator self))
                  (device_set_target_temperature t))
               (async_request_refresh e (coordinator self)))
      | None \<Rightarrow> returning self (Inr (), []))"

definition async_set_hvac_mode ::
    "env \<Rightarrow> MiHeaterClimate \<Rightarrow> HVACMode \<Rightarrow> (exn + unit) \<times> MiHeaterClimate \<times> event list" where
  "async_set_hvac_mode e self hvac_mode =
     (if hvac_mode = HEAT then
        returning self
          (and_then (async_add_executor_job e (device (coordinator self)) device_on)
             (async_request_refresh e (coordinator self)))
      else if hvac_mode = OFF then
        returning self
          (and_then (async_add_executor_job e (device (coordinator self)) device_off)
             (async_request_refresh e (coordinator self)))
      else
        returning self
          (Inr (), [logger_error ''Unsupported HVAC mode: %s'' [ArgMode hvac_mode]]))"

definition async_update ::
    "env \<Rightarrow> MiHeaterClimate \<Rightarrow> (exn + unit) \<times> MiHeaterClimate \<times> event list" where
  "async_update e self = returning self (async_request_refresh e (coordinator self))"

subsection \<open>Platform setup (climate.py)\<close>

definition climate_async_setup_entry :: "int \<Rightarrow> env \<Rightarrow> ConfigEntry \<Rightarrow> unit outcome" where
  "climate_async_setup_entry DEFAULT_UPDATE_INTERVAL e entry =
     (let h = data entry ''host'';
          t = data entry ''token'';
          n = ''Mi Heater'';
          dev = MiHeater h t;
          c = MiHeaterDataUpdateCoordinator_init DEFAULT_UPDATE_INTERVAL dev
      in and_then
           ((case first_refresh_reply e of None \<Rightarrow> Inr () | Some err \<Rightarrow> Inl err),
            [config_entry_first_refresh c])
           (Inr (), [add_entities [MiHeaterClimate_init c n (entry_id entry)] True]))"

subsection \<open>Integration setup (__init__.py)\<close>

definition PLATFORMS :: "string list" where
  "PLATFORMS = [''climate'']"

text \<open>The exceptions that \<open>except (DeviceException, OSError)\<close> catches.\<close>

fun caught_by_setup :: "exn \<Rightarrow> bool" where
  "caught_by_setup (DeviceException _) = True"
| "caught_by_setup (OSError _) = True"
| "caught_by_setup _ = False"

text \<open>
  \<open>DOMAIN\<close> is the constant of const.py, a parameter here. \<open>forward\<close> is
  \<open>hass.config_entries.async_forward_entry_setups\<close>, the procedure of the host that sets
  the platforms up: whatever it does is appended to the trace by the one call the code
  makes to it.
\<close>

definition async_setup_entry ::
    "string \<Rightarrow> (ConfigEntry \<Rightarrow> string list \<Rightarrow> unit outcome) \<Rightarrow> env \<Rightarrow> hass_data \<Rightarrow> ConfigEntry
       \<Rightarrow> (exn + bool) \<times> hass_data \<times> event list" where
  "async_setup_entry DOMAIN forward e hdata entry =
     (let per_domain = (case hdata DOMAIN of None \<Rightarrow> Map.empty | Some m \<Rightarrow> m);
          hdata' = hdata(DOMAIN \<mapsto> per_domain(entry_id entry \<mapsto> data entry));
          h = data entry ''host'';
          t = data entry ''token'';
          dev = Heater h t;
          job = executor_job dev device_status
      in case status_reply e dev of
           Inl err \<Rightarrow>
             if caught_by_setup err then
               (Inl (ConfigEntryNotReady err), hdata',
                [job, logger_warning ''Mi Heater not ready at %s: %s'' [ArgHost h, ArgExn err]])
             else (Inl err, hdata', [job])
         | Inr _ \<Rightarrow>
             (case fst (forward entry PLATFORMS) of
                Inl err \<Rightarrow> (Inl err, hdata', job # snd (forward entry PLATFORMS))
              | Inr _ \<Rightarrow> (Inr True, hdata', job # snd (forward entry PLATFORMS))))"

subsection \<open>Reading a trace\<close>

fun device_calls :: "event list \<Rightarrow> (device_obj \<times> device_call) list" where
  "device_calls [] = []"
| "device_calls (executor_job d c # es) = (d, c) # device_calls es"
| "device_calls (_ # es) = device_calls es"

fun refresh_requests :: "event list \<Rightarrow> nat" where
  "refresh_requests [] = 0"
| "refresh_requests (request_refresh _ # es) = Suc (refresh_requests es)"
| "refresh_requests (_ # es) = refresh_requests es"

text \<open>The coordinators that a trace brings into use, with their first refresh.\<close>

fun coordinators_of :: "event list \<Rightarrow> MiHeaterDataUpdateCoordinator list" where
  "coordinators_of [] = []"
| "coordinators_of (config_entry_first_refresh c # es) = c # coordinators_of es"
| "coordinators_of (_ # es) = coordinators_of es"

subsection \<open>The configuration as the specification words it\<close>

text \<open>
  The specification's configuration has a field \<open>pollIntervalSeconds\<close>, an integer with
  default 30. This is that reading of an entry, written from the specification's words,
  to be compared with the interval the code gives its coordinator.
\<close>

definition spec_pollIntervalSeconds :: "ConfigEntry \<Rightarrow> int" where
  "spec_pollIntervalSeconds entry =
     (case data entry ''pollIntervalSeconds'' of
        Some (VInt n) \<Rightarrow> n
      | _ \<Rightarrow> 30)"

subsection \<open>A configured heater, and three environments\<close>

definition example_entry :: ConfigEntry where
  "example_entry =
     \<lparr>entry_id = ''entry1'',
      data = [''host'' \<mapsto> VStr ''192.168.1.20'',
              ''token'' \<mapsto> VStr ''00112233445566778899aabbccddeeff'']\<rparr>"

text \<open>The same entry with a \<open>pollIntervalSeconds\<close> of 60 in its data.\<close>

definition example_entry_60 :: ConfigEntry where
  "example_entry_60 =
     example_entry\<lparr>data := (data example_entry)(''pollIntervalSeconds'' \<mapsto> VInt 60)\<rparr>"

definition example_device :: device_obj where
  "example_device = MiHeater (data example_entry ''host'') (data example_entry ''token'')"

definition example_coordinator :: MiHeaterDataUpdateCoordinator where
  "example_coordinator = MiHeaterDataUpdateCoordinator_init 30 example_device"

definition example_entity :: MiHeaterClimate where
  "example_entity = MiHeaterClimate_init example_coordinator ''Mi Heater'' ''entry1''"

text \<open>Every call answers.\<close>

definition env_ok :: env where
  "env_ok =
     \<lparr>status_reply = (\<lambda>_. Inr \<lparr>is_on = False, temperature = 18, target_temperature = 20\<rparr>),
      command_reply = (\<lambda>_ _. None),
      refresh_reply = None,
      first_refresh_reply = None\<rparr>"

text \<open>The device library raises on every command.\<close>

definition env_command_fails :: env where
  "env_command_fails =
     env_ok\<lparr>command_reply := (\<lambda>_ _. Some (DeviceException ''No response from the device''))\<rparr>"

text \<open>The device library raises on \<open>status\<close>.\<close>

definition env_status_fails :: env where
  "env_status_fails = env_ok\<lparr>status_reply := (\<lambda>_. Inl (OSError ''timed out''))\<rparr>"

section \<open>Properties\<close>

subsection \<open>What the two commands do, in general\<close>

lemma and_then_job_refresh:
  "and_then (async_add_executor_job e dev call) (async_request_refresh e c) =
     (case command_reply e dev call of
        Some err \<Rightarrow> (Inl err, [executor_job dev call])
      | None \<Rightarrow>
          ((case refresh_reply e of None \<Rightarrow> Inr () | Some err \<Rightarrow> Inl err),
           [executor_job dev call, request_refresh c]))"
  by (simp add: and_then_def async_add_executor_job_def async_request_refresh_def
      split: option.splits)

lemma async_set_temperature_Some:
  assumes "kwargs_get kwargs ATTR_TEMPERATURE = Some t"
  shows "async_set_temperature e self kwargs =
     (case command_reply e (device (coordinator self)) (device_set_target_temperature t) of
        Some err \<Rightarrow>
          (Inl err, self,
           [executor_job (device (coordinator self)) (device_set_target_temperature t)])
      | None \<Rightarrow>
          ((case refresh_reply e of None \<Rightarrow> Inr () | Some err \<Rightarrow> Inl err), self,
           [executor_job (device (coordinator self)) (device_set_target_temperature t),
            request_refresh (coordinator self)]))"
  using assms
  by (simp add: async_set_temperature_def returning_def and_then_job_refresh
      split: option.splits)

lemma async_set_hvac_mode_HEAT:
  "async_set_hvac_mode e self HEAT =
     (case command_reply e (device (coordinator self)) device_on of
        Some err \<Rightarrow> (Inl err, self, [executor_job (device (coordinator self)) device_on])
      | None \<Rightarrow>
          ((case refresh_reply e of None \<Rightarrow> Inr () | Some err \<Rightarrow> Inl err), self,
           [executor_job (device (coordinator self)) device_on,
            request_refresh (coordinator self)]))"
  by (simp add: async_set_hvac_mode_def returning_def and_then_job_refresh
      split: option.splits)

lemma async_set_hvac_mode_OFF:
  "async_set_hvac_mode e self OFF =
     (case command_reply e (device (coordinator self)) device_off of
        Some err \<Rightarrow> (Inl err, self, [executor_job (device (coordinator self)) device_off])
      | None \<Rightarrow>
          ((case refresh_reply e of None \<Rightarrow> Inr () | Some err \<Rightarrow> Inl err), self,
           [executor_job (device (coordinator self)) device_off,
            request_refresh (coordinator self)]))"
  by (simp add: async_set_hvac_mode_def returning_def and_then_job_refresh
      split: option.splits)

lemma kwargs_get_singleton [simp]:
  "kwargs_get [ATTR_TEMPERATURE \<mapsto> v] ATTR_TEMPERATURE = v"
  by (simp add: kwargs_get_def)

lemma example_entity_parts [simp]:
  "coordinator example_entity = example_coordinator"
  "device example_coordinator = example_device"
  "update_interval example_coordinator = 30"
  by (simp_all add: example_entity_def MiHeaterClimate_init_def example_coordinator_def
      MiHeaterDataUpdateCoordinator_init_def)

lemma env_replies [simp]:
  "command_reply env_ok d c = None"
  "refresh_reply env_ok = None"
  "command_reply env_command_fails d c = Some (DeviceException ''No response from the device'')"
  "status_reply env_status_fails d = Inl (OSError ''timed out'')"
  by (simp_all add: env_ok_def env_command_fails_def env_status_fails_def)

lemma climate_setup_first_refresh_failure:
  assumes "first_refresh_reply e = Some err"
  shows "climate_async_setup_entry DEFAULT_UPDATE_INTERVAL e entry =
           (Inl err,
            [config_entry_first_refresh
               (MiHeaterDataUpdateCoordinator_init DEFAULT_UPDATE_INTERVAL
                  (MiHeater (data entry ''host'') (data entry ''token'')))])"
  using assms by (simp add: climate_async_setup_entry_def and_then_def Let_def)

lemma setup_probe_success_forwards:
  assumes "status_reply e (Heater (data entry ''host'') (data entry ''token'')) = Inr d"
  shows "snd (snd (async_setup_entry DOMAIN forward e hdata entry)) =
           executor_job (Heater (data entry ''host'') (data entry ''token'')) device_status
           # snd (forward entry PLATFORMS)"
  using assms by (simp add: async_setup_entry_def Let_def split: sum.splits)

lemma setup_probe_success_example:
  "coordinators_of (snd (snd (async_setup_entry ''miheater''
           (\<lambda>entry platforms. climate_async_setup_entry 30 env_ok entry)
           env_ok Map.empty example_entry))) = [example_coordinator]"
  by (simp add: async_setup_entry_def Let_def env_ok_def climate_async_setup_entry_def
      and_then_def example_coordinator_def example_device_def MiHeater_def Heater_def
      split: sum.splits)

text \<open>
  The poll itself: a \<open>DeviceException\<close> leaves \<open>_async_update_data\<close> as \<open>UpdateFailed\<close>,
  an \<open>OSError\<close> leaves it as it is. What becomes of either is the base class's doing.
\<close>

lemma async_update_data_DeviceException:
  assumes "status_reply e (device self) = Inl (DeviceException m)"
  shows "fst (async_update_data e self) =
           Inl (UpdateFailed (''Error fetching data: '' @ m) (DeviceException m))"
  using assms by (simp add: async_update_data_def)

lemma async_update_data_OSError:
  assumes "status_reply e (device self) = Inl (OSError m)"
  shows "fst (async_update_data e self) = Inl (OSError m)"
  using assms by (simp add: async_update_data_def)

subsection \<open>Setting the target temperature\<close>




text \<open>
  C6, as the specification states it, fails: 20 is in range, the device call raises, and
  no refresh is requested.
\<close>

theorem set_temperature_20_error_skips_refresh:
  "min_temp \<le> 20 \<and> 20 \<le> max_temp
   \<and> async_set_temperature env_command_fails example_entity [ATTR_TEMPERATURE \<mapsto> Some 20] =
       (Inl (DeviceException ''No response from the device''), example_entity,
        [executor_job example_device (device_set_target_temperature 20)])
   \<and> refresh_requests (snd (snd (async_set_temperature env_command_fails example_entity
                                     [ATTR_TEMPERATURE \<mapsto> Some 20]))) = 0"
  by (simp add: async_set_temperature_Some min_temp_def max_temp_def)

text \<open>
  C6, amended: for every temperature from 16 to 32, \<open>async_set_temperature\<close> first calls
  the device's \<open>set_target_temperature\<close> with exactly that value; if the call returns, one
  refresh request follows and nothing else; if the call raises, the trace ends with it
  and the exception goes to the caller.
\<close>

theorem set_temperature_in_range_forwards:
  assumes "min_temp \<le> t" and "t \<le> max_temp"
      and "kwargs_get kwargs ATTR_TEMPERATURE = Some t"
  shows "snd (snd (async_set_temperature e self kwargs)) =
           executor_job (device (coordinator self)) (device_set_target_temperature t)
           # (case command_reply e (device (coordinator self)) (device_set_target_temperature t) of
                None \<Rightarrow> [request_refresh (coordinator self)]
              | Some err \<Rightarrow> [])
         \<and> fst (async_set_temperature e self kwargs) =
             (case command_reply e (device (coordinator self)) (device_set_target_temperature t) of
                Some err \<Rightarrow> Inl err
              | None \<Rightarrow> (case refresh_reply e of Some err \<Rightarrow> Inl err | None \<Rightarrow> Inr ()))"
  using assms(3) by (simp add: async_set_temperature_Some split: option.splits)

theorem set_temperature_in_range_forwards_witness:
  "min_temp \<le> 21.5 \<and> 21.5 \<le> max_temp
   \<and> kwargs_get [ATTR_TEMPERATURE \<mapsto> Some 21.5] ATTR_TEMPERATURE = Some 21.5
   \<and> snd (snd (async_set_temperature env_ok example_entity [ATTR_TEMPERATURE \<mapsto> Some 21.5])) =
       [executor_job example_device (device_set_target_temperature 21.5),
        request_refresh example_coordinator]
   \<and> fst (async_set_temperature env_ok example_entity [ATTR_TEMPERATURE \<mapsto> Some 21.5]) = Inr ()"
proof -
  have h1: "min_temp \<le> 21.5" by (simp add: min_temp_def)
  have h2: "21.5 \<le> max_temp" by (simp add: max_temp_def)
  have h3: "kwargs_get [ATTR_TEMPERATURE \<mapsto> Some 21.5] ATTR_TEMPERATURE = Some 21.5" by simp
  show ?thesis
    using h1 h2 h3 set_temperature_in_range_forwards [OF h1 h2 h3, of env_ok example_entity]
    by simp
qed

text \<open>
  C9: without a temperature (the key absent, or bound to \<open>None\<close>),
  \<open>async_set_temperature\<close> calls nothing, raises nothing and leaves the entity as it was.
\<close>

theorem set_temperature_none_is_noop:
  assumes "kwargs_get kwargs ATTR_TEMPERATURE = None"
  shows "async_set_temperature e self kwargs = (Inr (), self, [])"
  using assms by (simp add: async_set_temperature_def returning_def)

theorem set_temperature_none_is_noop_witness:
  "kwargs_get (Map.empty :: string \<rightharpoonup> real option) ATTR_TEMPERATURE = None
   \<and> kwargs_get [ATTR_TEMPERATURE \<mapsto> None] ATTR_TEMPERATURE = None
   \<and> async_set_temperature env_command_fails example_entity Map.empty
       = (Inr (), example_entity, [])
   \<and> async_set_temperature env_command_fails example_entity [ATTR_TEMPERATURE \<mapsto> None]
       = (Inr (), example_entity, [])"
proof -
  have h1: "kwargs_get (Map.empty :: string \<rightharpoonup> real option) ATTR_TEMPERATURE = None"
    by (simp add: kwargs_get_def)
  have h2: "kwargs_get [ATTR_TEMPERATURE \<mapsto> None] ATTR_TEMPERATURE = None"
    by simp
  show ?thesis
    using h1 h2
      set_temperature_none_is_noop [OF h1, of env_command_fails example_entity]
      set_temperature_none_is_noop [OF h2, of env_command_fails example_entity]
    by simp
qed

subsection \<open>Setting the HVAC mode\<close>

text \<open>
  C2, as the specification states it, fails: with a device that raises on \<open>on\<close>, the mode
  \<open>HEAT\<close> ends with the exception and no refresh is requested.
\<close>

theorem set_hvac_mode_heat_error_skips_refresh:
  "async_set_hvac_mode env_command_fails example_entity HEAT =
     (Inl (DeviceException ''No response from the device''), example_entity,
      [executor_job example_device device_on])
   \<and> refresh_requests
       (snd (snd (async_set_hvac_mode env_command_fails example_entity HEAT))) = 0"
  by (simp add: async_set_hvac_mode_HEAT)

text \<open>
  C2, amended: for the modes \<open>HEAT\<close> and \<open>OFF\<close>, \<open>async_set_hvac_mode\<close> first calls the
  device (\<open>on\<close>, \<open>off\<close>); if the call returns, one refresh request follows; if it raises,
  the exception goes to the caller and no refresh is requested.
\<close>

theorem set_hvac_mode_refresh_after_success:
  assumes "hvac_mode = HEAT \<or> hvac_mode = OFF"
  shows "snd (snd (async_set_hvac_mode e self hvac_mode)) =
           executor_job (device (coordinator self))
             (if hvac_mode = HEAT then device_on else device_off)
           # (case command_reply e (device (coordinator self))
                     (if hvac_mode = HEAT then device_on else device_off) of
                None \<Rightarrow> [request_refresh (coordinator self)]
              | Some err \<Rightarrow> [])
         \<and> fst (async_set_hvac_mode e self hvac_mode) =
             (case command_reply e (device (coordinator self))
                     (if hvac_mode = HEAT then device_on else device_off) of
                Some err \<Rightarrow> Inl err
              | None \<Rightarrow> (case refresh_reply e of Some err \<Rightarrow> Inl err | None \<Rightarrow> Inr ()))"
  using assms
  by (auto simp add: async_set_hvac_mode_HEAT async_set_hvac_mode_OFF split: option.splits)

theorem set_hvac_mode_refresh_after_success_witness:
  "(OFF = HEAT \<or> OFF = OFF)
   \<and> snd (snd (async_set_hvac_mode env_ok example_entity OFF)) =
       [executor_job example_device device_off, request_refresh example_coordinator]
   \<and> fst (async_set_hvac_mode env_ok example_entity OFF) = Inr ()
   \<and> snd (snd (async_set_hvac_mode env_command_fails example_entity OFF)) =
       [executor_job example_device device_off]
   \<and> fst (async_set_hvac_mode env_command_fails example_entity OFF) =
       Inl (DeviceException ''No response from the device'')"
proof -
  have h: "OFF = HEAT \<or> OFF = OFF" by simp
  show ?thesis
    using h
      set_hvac_mode_refresh_after_success [OF h, of env_ok example_entity]
      set_hvac_mode_refresh_after_success [OF h, of env_command_fails example_entity]
    by simp
qed

text \<open>
  C10: for a mode that is neither \<open>HEAT\<close> nor \<open>OFF\<close>, \<open>async_set_hvac_mode\<close> logs an
  error and returns: no exception, no device call, no refresh request, the entity as it
  was.
\<close>

theorem set_hvac_mode_unsupported_is_noop:
  assumes "hvac_mode \<noteq> HEAT" and "hvac_mode \<noteq> OFF"
  shows "async_set_hvac_mode e self hvac_mode =
           (Inr (), self, [logger_error ''Unsupported HVAC mode: %s'' [ArgMode hvac_mode]])
         \<and> device_calls (snd (snd (async_set_hvac_mode e self hvac_mode))) = []
         \<and> refresh_requests (snd (snd (async_set_hvac_mode e self hvac_mode))) = 0"
  using assms by (simp add: async_set_hvac_mode_def returning_def)

theorem set_hvac_mode_unsupported_is_noop_witness:
  "COOL \<noteq> HEAT \<and> COOL \<noteq> OFF
   \<and> async_set_hvac_mode env_command_fails example_entity COOL =
        (Inr (), example_entity, [logger_error ''Unsupported HVAC mode: %s'' [ArgMode COOL]])"
proof -
  have h1: "COOL \<noteq> HEAT" and h2: "COOL \<noteq> OFF" by simp_all
  show ?thesis
    using h1 h2
      set_hvac_mode_unsupported_is_noop [OF h1 h2, of env_command_fails example_entity]
    by simp
qed

subsection \<open>The poll interval\<close>

text \<open>
  C3, as the specification states it, fails: the entry asks for 60 seconds, and with the
  constant at 30 the coordinator made for it polls every 30.
\<close>

theorem poll_interval_ignores_entry_60:
  "spec_pollIntervalSeconds example_entry_60 = 60
   \<and> map update_interval
       (coordinators_of (snd (climate_async_setup_entry 30 env_ok example_entry_60))) = [30]"
  by (simp add: spec_pollIntervalSeconds_def example_entry_60_def example_entry_def
      climate_async_setup_entry_def and_then_def env_ok_def Let_def
      MiHeaterDataUpdateCoordinator_init_def)

text \<open>
  C3, amended: the poll interval is not read from the config entry. For every entry, the
  platform setup makes one coordinator, and its update interval is the constant
  \<open>DEFAULT_UPDATE_INTERVAL\<close>.
\<close>

theorem poll_interval_is_constant:
  "map update_interval
     (coordinators_of (snd (climate_async_setup_entry DEFAULT_UPDATE_INTERVAL e entry))) =
   [DEFAULT_UPDATE_INTERVAL]"
  by (simp add: climate_async_setup_entry_def and_then_def Let_def
      MiHeaterDataUpdateCoordinator_init_def split: option.splits)

subsection \<open>The probe at setup\<close>

text \<open>
  C4: if the status call of the setup raises a \<open>DeviceException\<close> or an \<open>OSError\<close>,
  \<open>async_setup_entry\<close> raises \<open>ConfigEntryNotReady\<close> from it; the trace is the status call
  and the warning, so the platforms are not set up, whatever setting them up would do,
  and no coordinator comes into use.
\<close>

theorem setup_probe_failure_not_ready:
  assumes "status_reply e (Heater (data entry ''host'') (data entry ''token'')) = Inl err"
      and "err = DeviceException m \<or> err = OSError m"
  shows "fst (async_setup_entry DOMAIN forward e hdata entry) = Inl (ConfigEntryNotReady err)
         \<and> snd (snd (async_setup_entry DOMAIN forward e hdata entry)) =
             [executor_job (Heater (data entry ''host'') (data entry ''token'')) device_status,
              logger_warning ''Mi Heater not ready at %s: %s''
                [ArgHost (data entry ''host''), ArgExn err]]
         \<and> coordinators_of (snd (snd (async_setup_entry DOMAIN forward e hdata entry))) = []"
  using assms by (auto simp add: async_setup_entry_def Let_def)

theorem setup_probe_failure_not_ready_witness:
  "status_reply env_status_fails
      (Heater (data example_entry ''host'') (data example_entry ''token'')) =
     Inl (OSError ''timed out'')
   \<and> (OSError ''timed out'' = DeviceException ''timed out''
        \<or> OSError ''timed out'' = OSError ''timed out'')
   \<and> fst (async_setup_entry ''miheater''
           (\<lambda>entry platforms. climate_async_setup_entry 30 env_status_fails entry)
           env_status_fails Map.empty example_entry) =
       Inl (ConfigEntryNotReady (OSError ''timed out''))
   \<and> coordinators_of (snd (snd (async_setup_entry ''miheater''
           (\<lambda>entry platforms. climate_async_setup_entry 30 env_status_fails entry)
           env_status_fails Map.empty example_entry))) = []"
proof -
  have h1: "status_reply env_status_fails
      (Heater (data example_entry ''host'') (data example_entry ''token'')) =
     Inl (OSError ''timed out'')" by simp
  have h2: "OSError ''timed out'' = DeviceException ''timed out''
        \<or> OSError ''timed out'' = OSError ''timed out''" by simp
  show ?thesis
    using h1 h2
      setup_probe_failure_not_ready [OF h1 h2, of "''miheater''"
        "\<lambda>entry platforms. climate_async_setup_entry 30 env_status_fails entry" Map.empty]
    by simp
qed

end
